theory Spec2Isabelle
  imports Main "HOL-Library.Word"
begin

section \<open>Domain model\<close>

text \<open>
  The routes of \<^verbatim>\<open>v0/events.py\<close> exchange the request models \<^verbatim>\<open>Person\<close> and
  \<^verbatim>\<open>Event\<close> of \<^verbatim>\<open>api_models\<close> and delegate all persistence to \<^verbatim>\<open>crud.EventCRUD\<close>.
  Neither module is part of the sources at hand; both are rendered here from the
  specification (sections 3 and 4) and marked as such. The route functions and the
  router below follow \<^verbatim>\<open>v0/events.py\<close> line by line.
\<close>

type_synonym uuid = "128 word"

type_synonym datetime = string

text \<open>
  Modelled from the spec: the request model \<^verbatim>\<open>api_models.Person\<close> (section 3: a unique
  identifier and a name).
\<close>

record Person =
  person_id :: uuid
  name :: string

text \<open>
  Modelled from the spec: the request model \<^verbatim>\<open>api_models.Event\<close> (section 3: identifier,
  title, description, time, the flag \<^verbatim>\<open>cancelled\<close> that defaults to false, and the
  attached persons, which default to the empty list).
\<close>

record Event =
  event_id :: uuid
  title :: string
  description :: string
  time :: datetime
  cancelled :: bool
  persons :: "Person list"

section \<open>The relational store\<close>

text \<open>
  Modelled from the spec: the relational store (section 2) keeps Person rows, Event rows
  and an Event--Person association table. Tables are lists of rows in insertion order;
  an association row is the pair (event id, person id).
\<close>

record EventRow =
  row_id :: uuid
  row_title :: string
  row_description :: string
  row_time :: datetime
  row_cancelled :: bool

record store =
  person_rows :: "Person list"
  event_rows :: "EventRow list"
  association_rows :: "(uuid \<times> uuid) list"

text \<open>
  Modelled from the spec: the invariant of section 3 that an association row exists only
  if both the Event and the Person it references exist.
\<close>

definition referential_integrity :: "store \<Rightarrow> bool" where
  "referential_integrity s \<longleftrightarrow>
     (\<forall>(e, p) \<in> set (association_rows s).
        e \<in> row_id ` set (event_rows s) \<and> p \<in> person_id ` set (person_rows s))"

section \<open>Person service\<close>

text \<open>
  Modelled from the spec: \<^verbatim>\<open>get(id) -> Person | NotFound\<close> of the Person service
  (section 4.1), lookup by id; \<open>None\<close> is the not-found value.
\<close>

definition person_read_by_id :: "store \<Rightarrow> uuid \<Rightarrow> Person option" where
  "person_read_by_id s pid = find (\<lambda>p. person_id p = pid) (person_rows s)"

section \<open>Event service\<close>

text \<open>
  Modelled from the spec: \<^verbatim>\<open>EventCRUD.get_persons_from_event\<close>, the resolved Person set of
  an Event (section 4.2, ``together with its resolved Person set''): the association rows
  of the event, each resolved against the Person table.
\<close>

definition get_persons_from_event :: "store \<Rightarrow> uuid \<Rightarrow> Person list" where
  "get_persons_from_event s eid =
     List.map_filter
       (\<lambda>row. if fst row = eid then person_read_by_id s (snd row) else None)
       (association_rows s)"

text \<open>
  Modelled from the spec: the entity the Event service hands back, an Event row together
  with its resolved persons.
\<close>

definition entity :: "store \<Rightarrow> EventRow \<Rightarrow> Event" where
  "entity s r =
     \<lparr>event_id = row_id r, title = row_title r, description = row_description r,
      time = row_time r, cancelled = row_cancelled r,
      persons = get_persons_from_event s (row_id r)\<rparr>"

text \<open>
  Modelled from the spec: the lookup of an Event row by id that every operation of
  section 4.2 starts with; \<open>None\<close> when no row carries the id.
\<close>

definition find_event_row :: "store \<Rightarrow> uuid \<Rightarrow> EventRow option" where
  "find_event_row s eid = find (\<lambda>r. row_id r = eid) (event_rows s)"

text \<open>
  Modelled from the spec: \<^verbatim>\<open>EventCRUD.get_all_events\<close> (section 4.2), all Event rows.
\<close>

definition get_all_events_crud :: "store \<Rightarrow> EventRow list" where
  "get_all_events_crud s = event_rows s"

text \<open>
  Modelled from the spec: \<^verbatim>\<open>read_by_id(id) -> Event | NotFound\<close> (section 4.2), the Event
  together with its resolved Person set.
\<close>

definition read_by_id :: "store \<Rightarrow> uuid \<Rightarrow> Event option" where
  "read_by_id s eid = map_option (entity s) (find_event_row s eid)"

text \<open>
  Modelled from the spec: \<^verbatim>\<open>create_without_persons(id, title, description, time) -> Event\<close>
  (section 4.2): persists an Event row under the id the caller supplies, not cancelled,
  and adds no association row.
\<close>

definition create_without_persons ::
  "store \<Rightarrow> uuid \<Rightarrow> string \<Rightarrow> string \<Rightarrow> datetime \<Rightarrow> Event \<times> store" where
  "create_without_persons s eid ttl descr tm =
     (let r = \<lparr>row_id = eid, row_title = ttl, row_description = descr, row_time = tm,
                row_cancelled = False\<rparr>;
          s' = s\<lparr>event_rows := event_rows s @ [r]\<rparr>
      in (entity s' r, s'))"

text \<open>
  Modelled from the spec: insertion of one association ``if absent'' (section 4.2, union
  semantics).
\<close>

definition add_association :: "uuid \<Rightarrow> uuid \<Rightarrow> (uuid \<times> uuid) list \<Rightarrow> (uuid \<times> uuid) list" where
  "add_association eid pid rows = (if (eid, pid) \<in> set rows then rows else rows @ [(eid, pid)])"

text \<open>
  Modelled from the spec: the first step of \<^verbatim>\<open>create_with_persons\<close> (section 4.2),
  ``resolve every supplied Person reference against the Person Service by id''; the first
  reference that does not resolve aborts.
\<close>

fun resolve_persons :: "store \<Rightarrow> Person list \<Rightarrow> Person list option" where
  "resolve_persons s [] = Some []"
| "resolve_persons s (p # ps) =
     (case person_read_by_id s (person_id p) of
        None \<Rightarrow> None
      | Some q \<Rightarrow> (case resolve_persons s ps of None \<Rightarrow> None | Some qs \<Rightarrow> Some (q # qs)))"

text \<open>
  Modelled from the spec: \<^verbatim>\<open>create_with_persons(title, description, time, persons)
  -> Event | NotFound\<close> (section 4.2). No id is passed in, so the Event gets a freshly
  assigned one (section 3); \<open>new_id\<close> is the value the id generator yields for this call.
  If a Person does not resolve, nothing is persisted and the result is \<open>None\<close>.
\<close>

definition create_with_persons ::
  "store \<Rightarrow> string \<Rightarrow> string \<Rightarrow> datetime \<Rightarrow> Person list \<Rightarrow> uuid \<Rightarrow> Event option \<times> store" where
  "create_with_persons s ttl descr tm ps new_id =
     (case resolve_persons s ps of
        None \<Rightarrow> (None, s)
      | Some qs \<Rightarrow>
          (let r = \<lparr>row_id = new_id, row_title = ttl, row_description = descr, row_time = tm,
                     row_cancelled = False\<rparr>;
               s' = s\<lparr>event_rows := event_rows s @ [r],
                       association_rows :=
                         fold (add_association new_id) (map person_id qs) (association_rows s)\<rparr>
           in (Some (entity s' r), s')))"

text \<open>
  Modelled from the spec: the loop of \<^verbatim>\<open>add_persons_to_event\<close> (section 4.2), ``for each
  person id, validates existence and inserts the association if absent''. It works on the
  session's copy of the store; \<open>None\<close> is the first person id that does not exist.
\<close>

fun add_each :: "store \<Rightarrow> uuid \<Rightarrow> uuid list \<Rightarrow> store option" where
  "add_each s eid [] = Some s"
| "add_each s eid (pid # pids) =
     (case person_read_by_id s pid of
        None \<Rightarrow> None
      | Some _ \<Rightarrow>
          add_each (s\<lparr>association_rows := add_association eid pid (association_rows s)\<rparr>)
            eid pids)"

text \<open>
  Modelled from the spec: \<^verbatim>\<open>EventCRUD.add_people_to_event\<close>, the operation
  \<^verbatim>\<open>add_persons_to_event(event_id, person_ids) -> Event | NotFound\<close> of section 4.2. The
  Event is validated first; on any failure the session is rolled back, so the store the
  caller started from is returned with the not-found value \<open>None\<close>.
\<close>

definition add_people_to_event :: "store \<Rightarrow> uuid list \<Rightarrow> uuid \<Rightarrow> Event option \<times> store" where
  "add_people_to_event s person_ids eid =
     (case find_event_row s eid of
        None \<Rightarrow> (None, s)
      | Some _ \<Rightarrow>
          (case add_each s eid person_ids of
             None \<Rightarrow> (None, s)
           | Some s' \<Rightarrow> (read_by_id s' eid, s')))"

text \<open>
  Modelled from the spec: \<^verbatim>\<open>delete_by_id(id) -> Event | NotFound\<close> (section 4.2): removes
  the Event and its association rows and returns the deleted snapshot.
\<close>

definition delete_by_id :: "store \<Rightarrow> uuid \<Rightarrow> Event option \<times> store" where
  "delete_by_id s eid =
     (case read_by_id s eid of
        None \<Rightarrow> (None, s)
      | Some snapshot \<Rightarrow>
          (Some snapshot,
           s\<lparr>event_rows := filter (\<lambda>r. row_id r \<noteq> eid) (event_rows s),
             association_rows := filter (\<lambda>row. fst row \<noteq> eid) (association_rows s)\<rparr>))"

section \<open>The routes of \<^verbatim>\<open>v0/events.py\<close>\<close>

text \<open>
  What a route function hands to the framework: a plain value, which is serialised as the
  body under the status code of the route's decorator, or a \<^verbatim>\<open>JSONResponse\<close> that carries
  its own status code. A route may also raise.
\<close>

datatype json = JNull | JDetail string | JEvent Event | JEvents "Event list"

datatype reply = Returned json | JSONResponse nat json

datatype error = NotImplementedError

record response =
  status_code :: nat
  content :: json

definition HTTP_200_OK :: nat where "HTTP_200_OK = 200"
definition HTTP_201_CREATED :: nat where "HTTP_201_CREATED = 201"
definition HTTP_404_NOT_FOUND :: nat where "HTTP_404_NOT_FOUND = 404"

text \<open>Python's \<^verbatim>\<open>None\<close> is serialised as \<^verbatim>\<open>null\<close>, an entity as its JSON object.\<close>

definition serialise :: "Event option \<Rightarrow> json" where
  "serialise r = (case r of None \<Rightarrow> JNull | Some e \<Rightarrow> JEvent e)"

text \<open>
  \<^verbatim>\<open>get_all_events\<close>: one \<^verbatim>\<open>Event\<close> per row, built from the row's id, title, description and
  time and the persons of the event; \<^verbatim>\<open>cancelled\<close> is not passed and takes its default.
\<close>

definition get_all_events :: "store \<Rightarrow> reply \<times> store" where
  "get_all_events db =
     (Returned (JEvents
        (map (\<lambda>db_event.
                \<lparr>event_id = row_id db_event, title = row_title db_event,
                 description = row_description db_event, time = row_time db_event,
                 cancelled = False,
                 persons = get_persons_from_event db (row_id db_event)\<rparr>)
           (get_all_events_crud db))), db)"

definition create_event_without_persons :: "Event \<Rightarrow> store \<Rightarrow> reply \<times> store" where
  "create_event_without_persons event db =
     (case create_without_persons db (event_id event) (title event) (description event)
             (time event) of
        (created, db') \<Rightarrow> (Returned (JEvent created), db'))"

text \<open>
  \<^verbatim>\<open>create_event_with_persons\<close>: the id of the payload is not among the arguments of
  \<^verbatim>\<open>EventCRUD.create_with_persons\<close>; the reply on success is built from the payload.
  \<open>new_id\<close> is the id the store assigns during the call.
\<close>

definition create_event_with_persons ::
  "uuid \<Rightarrow> Event \<Rightarrow> Person list \<Rightarrow> store \<Rightarrow> reply \<times> store" where
  "create_event_with_persons new_id event ps db =
     (case create_with_persons db (title event) (description event) (time event) ps new_id of
        (None, db') \<Rightarrow> (JSONResponse HTTP_404_NOT_FOUND (JDetail ''Person not found''), db')
      | (Some _, db') \<Rightarrow>
          (Returned (JEvent
             \<lparr>event_id = event_id event, title = title event,
              description = description event, time = time event, cancelled = False,
              persons = ps\<rparr>), db'))"

definition get_event :: "uuid \<Rightarrow> store \<Rightarrow> reply \<times> store" where
  "get_event eid db =
     (case read_by_id db eid of
        Some db_event \<Rightarrow> (Returned (JEvent db_event), db)
      | None \<Rightarrow> (JSONResponse HTTP_404_NOT_FOUND (JDetail ''Person not found''), db))"

text \<open>\<^verbatim>\<open>update_event\<close> takes no store handle and raises.\<close>

definition update_event :: "uuid \<Rightarrow> Event \<Rightarrow> error + reply" where
  "update_event eid event = Inl NotImplementedError"

text \<open>\<^verbatim>\<open>add_persons_to_event\<close> returns whatever \<^verbatim>\<open>EventCRUD.add_people_to_event\<close> returns.\<close>

definition add_persons_to_event :: "uuid \<Rightarrow> uuid list \<Rightarrow> store \<Rightarrow> reply \<times> store" where
  "add_persons_to_event eid person_ids db =
     (case add_people_to_event db person_ids eid of
        (result, db') \<Rightarrow> (Returned (serialise result), db'))"

definition delete_event :: "uuid \<Rightarrow> store \<Rightarrow> reply \<times> store" where
  "delete_event eid db =
     (case delete_by_id db eid of
        (Some db_event, db') \<Rightarrow> (Returned (JEvent db_event), db')
      | (None, db') \<Rightarrow> (JSONResponse HTTP_404_NOT_FOUND (JDetail ''Person not found''), db'))"

text \<open>\<^verbatim>\<open>flip_cancel_event\<close> takes no store handle; its body is a bare \<^verbatim>\<open>return\<close>.\<close>

definition flip_cancel_event :: "uuid \<Rightarrow> reply" where
  "flip_cancel_event eid = Returned JNull"

subsection \<open>The router\<close>

text \<open>
  The decorators of \<^verbatim>\<open>v0/events.py\<close>: each request kind is bound to its route function and
  to the status code of a plain return (200 where the decorator names none). Only the
  routes that declare \<^verbatim>\<open>db: Session = Depends(get_db)\<close> receive the store; for the others
  the store stays as it is.
\<close>

datatype request =
    GET_events
  | POST_create_no_persons Event
  | POST_create_with_persons Event "Person list"
  | GET_event uuid
  | PUT_event uuid Event
  | PUT_add_persons uuid "uuid list"
  | DELETE_event uuid
  | PATCH_cancel uuid

fun respond :: "nat \<Rightarrow> reply \<Rightarrow> response" where
  "respond dflt (Returned j) = \<lparr>status_code = dflt, content = j\<rparr>"
| "respond dflt (JSONResponse code j) = \<lparr>status_code = code, content = j\<rparr>"

definition with_db :: "nat \<Rightarrow> reply \<times> store \<Rightarrow> (error + response) \<times> store" where
  "with_db dflt r = (Inr (respond dflt (fst r)), snd r)"

fun events_router :: "uuid \<Rightarrow> request \<Rightarrow> store \<Rightarrow> (error + response) \<times> store" where
  "events_router new_id GET_events db = with_db HTTP_200_OK (get_all_events db)"
| "events_router new_id (POST_create_no_persons event) db =
     with_db HTTP_201_CREATED (create_event_without_persons event db)"
| "events_router new_id (POST_create_with_persons event ps) db =
     with_db HTTP_201_CREATED (create_event_with_persons new_id event ps db)"
| "events_router new_id (GET_event eid) db = with_db HTTP_200_OK (get_event eid db)"
| "events_router new_id (PUT_event eid event) db =
     (map_sum (\<lambda>e. e) (respond HTTP_200_OK) (update_event eid event), db)"
| "events_router new_id (PUT_add_persons eid person_ids) db =
     with_db HTTP_200_OK (add_persons_to_event eid person_ids db)"
| "events_router new_id (DELETE_event eid) db = with_db HTTP_200_OK (delete_event eid db)"
| "events_router new_id (PATCH_cancel eid) db =
     (Inr (respond HTTP_200_OK (flip_cancel_event eid)), db)"

text \<open>The status code a request is answered with, if the route did not raise.\<close>

definition status_of :: "(error + response) \<times> store \<Rightarrow> nat option" where
  "status_of out = (case fst out of Inl _ \<Rightarrow> None | Inr r \<Rightarrow> Some (status_code r))"

subsection \<open>A small store\<close>

text \<open>
  Two persons, one event that the first person attends. The properties below are
  instantiated on this store.
\<close>

definition example_store :: store where
  "example_store =
     \<lparr>person_rows = [\<lparr>person_id = 1, name = ''Person1''\<rparr>, \<lparr>person_id = 2, name = ''Person2''\<rparr>],
      event_rows = [\<lparr>row_id = 10, row_title = ''blah'', row_description = ''blah'',
                     row_time = ''2024-01-01 10:00:00'', row_cancelled = False\<rparr>],
      association_rows = [(10, 1)]\<rparr>"

definition example_event :: Event where
  "example_event =
     \<lparr>event_id = 5, title = ''standup'', description = ''daily'', time = ''2024-02-02 09:00:00'',
      cancelled = False, persons = []\<rparr>"

section \<open>Lookups\<close>

lemmas route_defs = with_db_def HTTP_200_OK_def HTTP_201_CREATED_def HTTP_404_NOT_FOUND_def

lemma resolve_persons_None_iff:
  "resolve_persons s ps = None \<longleftrightarrow> (\<exists>p \<in> set ps. person_read_by_id s (person_id p) = None)"
  by (induction ps) (auto split: option.splits)

lemma person_read_by_id_None_iff:
  "person_read_by_id s pid = None \<longleftrightarrow> pid \<notin> person_id ` set (person_rows s)"
  by (auto simp: person_read_by_id_def find_None_iff)

lemma find_event_row_None_iff:
  "find_event_row s eid = None \<longleftrightarrow> eid \<notin> row_id ` set (event_rows s)"
  by (auto simp: find_event_row_def find_None_iff)

lemma read_by_id_None_iff:
  "read_by_id s eid = None \<longleftrightarrow> eid \<notin> row_id ` set (event_rows s)"
  by (simp add: read_by_id_def find_event_row_None_iff)

lemma find_Some_row_id: "find (\<lambda>r. row_id r = eid) rows = Some r \<Longrightarrow> row_id r = eid"
  by (auto simp: find_Some_iff)

lemma get_persons_from_event_event_rows:
  "get_persons_from_event (s\<lparr>event_rows := rows\<rparr>) eid = get_persons_from_event s eid"
  by (simp add: get_persons_from_event_def person_read_by_id_def cong: if_cong)

section \<open>Atomic creation\<close>

text \<open>
  Claim C1. Whenever the persons list of a \<^verbatim>\<open>create_with_persons\<close> request contains a
  Person whose id is not the id of any stored Person, the request is answered 404 and the
  store is exactly what it was: no Event row and no association row has been added.
\<close>

theorem create_with_persons_atomic:
  assumes "\<exists>p \<in> set ps. person_id p \<notin> person_id ` set (person_rows db)"
  shows "events_router new_id (POST_create_with_persons event ps) db =
           (Inr \<lparr>status_code = 404, content = JDetail ''Person not found''\<rparr>, db)"
proof -
  from assms have "resolve_persons db ps = None"
    by (simp add: resolve_persons_None_iff person_read_by_id_None_iff)
  then show ?thesis
    by (simp add: route_defs create_event_with_persons_def create_with_persons_def)
qed

theorem create_with_persons_atomic_witness:
  "(\<exists>p \<in> set [\<lparr>person_id = 1, name = ''Person1''\<rparr>, \<lparr>person_id = 3, name = ''Person3''\<rparr>].
      person_id p \<notin> person_id ` set (person_rows example_store)) \<and>
   events_router 77 (POST_create_with_persons example_event
       [\<lparr>person_id = 1, name = ''Person1''\<rparr>, \<lparr>person_id = 3, name = ''Person3''\<rparr>])
     example_store =
     (Inr \<lparr>status_code = 404, content = JDetail ''Person not found''\<rparr>, example_store)"
proof -
  have h: "\<exists>p \<in> set [\<lparr>person_id = 1, name = ''Person1''\<rparr>, \<lparr>person_id = 3, name = ''Person3''\<rparr>].
      person_id p \<notin> person_id ` set (person_rows example_store)"
    by (simp add: example_store_def)
  show ?thesis using h create_with_persons_atomic [OF h] by simp
qed

section \<open>Lookup and deletion\<close>

lemma get_event_missing:
  assumes "eid \<notin> row_id ` set (event_rows db)"
  shows "events_router new_id (GET_event eid) db =
       (Inr \<lparr>status_code = 404, content = JDetail ''Person not found''\<rparr>, db)"
proof -
  from assms have "read_by_id db eid = None" by (simp add: read_by_id_None_iff)
  then show ?thesis by (simp add: route_defs get_event_def)
qed

lemma delete_event_missing:
  assumes "eid \<notin> row_id ` set (event_rows db)"
  shows "events_router new_id (DELETE_event eid) db =
       (Inr \<lparr>status_code = 404, content = JDetail ''Person not found''\<rparr>, db)"
proof -
  from assms have "read_by_id db eid = None" by (simp add: read_by_id_None_iff)
  then show ?thesis by (simp add: route_defs delete_event_def delete_by_id_def)
qed

lemma delete_event_existing:
  assumes "read_by_id db eid = Some snapshot"
  shows "events_router new_id (DELETE_event eid) db =
       (Inr \<lparr>status_code = 200, content = JEvent snapshot\<rparr>,
        db\<lparr>event_rows := filter (\<lambda>r. row_id r \<noteq> eid) (event_rows db),
           association_rows := filter (\<lambda>row. fst row \<noteq> eid) (association_rows db)\<rparr>)"
  using assms by (simp add: route_defs delete_event_def delete_by_id_def)

lemma find_filter_other:
  "other \<noteq> eid \<Longrightarrow>
     find (\<lambda>r. row_id r = other) (filter (\<lambda>r. row_id r \<noteq> eid) rows) =
     find (\<lambda>r. row_id r = other) rows"
  by (induction rows) auto

lemma map_filter_filter_other:
  "other \<noteq> eid \<Longrightarrow>
     List.map_filter (\<lambda>row. if fst row = other then f row else None)
        (filter (\<lambda>row. fst row \<noteq> eid) rows) =
     List.map_filter (\<lambda>row. if fst row = other then f row else None) rows"
  by (induction rows) (auto simp: List.map_filter_simps split: option.splits)

lemma read_by_id_after_delete:
  assumes "other \<noteq> eid"
  shows "read_by_id (db\<lparr>event_rows := filter (\<lambda>r. row_id r \<noteq> eid) (event_rows db),
           association_rows := filter (\<lambda>row. fst row \<noteq> eid) (association_rows db)\<rparr>) other =
         read_by_id db other"
proof (cases "find (\<lambda>r. row_id r = other) (event_rows db)")
  case None
  then show ?thesis
    using assms by (simp add: read_by_id_def find_event_row_def find_filter_other)
next
  case (Some r)
  then have "row_id r = other" by (rule find_Some_row_id)
  with Some assms show ?thesis
    by (simp add: read_by_id_def find_event_row_def find_filter_other entity_def
        get_persons_from_event_def person_read_by_id_def map_filter_filter_other cong: if_cong)
qed

text \<open>
  Claim C7. For an id that no stored Event carries, both \<^verbatim>\<open>GET /events/{id}\<close> and
  \<^verbatim>\<open>DELETE /events/{id}\<close> answer 404 with the not-found detail and leave the store as it
  is. For an id that \<^verbatim>\<open>read_by_id\<close> resolves to an Event, the delete route answers 200 with
  that Event as the snapshot; afterwards the id no longer resolves, no association row
  mentions it, and every other id resolves to what it resolved to before.
\<close>

theorem get_delete_not_found:
  "(eid \<notin> row_id ` set (event_rows db) \<longrightarrow>
      events_router new_id (GET_event eid) db =
        (Inr \<lparr>status_code = 404, content = JDetail ''Person not found''\<rparr>, db) \<and>
      events_router new_id (DELETE_event eid) db =
        (Inr \<lparr>status_code = 404, content = JDetail ''Person not found''\<rparr>, db)) \<and>
   (\<forall>snapshot. read_by_id db eid = Some snapshot \<longrightarrow>
      fst (events_router new_id (DELETE_event eid) db) =
        Inr \<lparr>status_code = 200, content = JEvent snapshot\<rparr> \<and>
      read_by_id (snd (events_router new_id (DELETE_event eid) db)) eid = None \<and>
      eid \<notin> fst ` set (association_rows (snd (events_router new_id (DELETE_event eid) db))) \<and>
      (\<forall>other. other \<noteq> eid \<longrightarrow>
         read_by_id (snd (events_router new_id (DELETE_event eid) db)) other =
         read_by_id db other))"
proof (intro conjI impI allI)
  assume "eid \<notin> row_id ` set (event_rows db)"
  then show "events_router new_id (GET_event eid) db =
        (Inr \<lparr>status_code = 404, content = JDetail ''Person not found''\<rparr>, db)"
    by (rule get_event_missing)
next
  assume "eid \<notin> row_id ` set (event_rows db)"
  then show "events_router new_id (DELETE_event eid) db =
        (Inr \<lparr>status_code = 404, content = JDetail ''Person not found''\<rparr>, db)"
    by (rule delete_event_missing)
next
  fix snapshot assume "read_by_id db eid = Some snapshot"
  note eq = delete_event_existing [OF this, of new_id]
  show "fst (events_router new_id (DELETE_event eid) db) =
        Inr \<lparr>status_code = 200, content = JEvent snapshot\<rparr>"
    by (simp only: eq fst_conv)
next
  fix snapshot assume "read_by_id db eid = Some snapshot"
  note eq = delete_event_existing [OF this, of new_id]
  show "read_by_id (snd (events_router new_id (DELETE_event eid) db)) eid = None"
    unfolding eq snd_conv by (auto simp: read_by_id_None_iff)
next
  fix snapshot assume "read_by_id db eid = Some snapshot"
  note eq = delete_event_existing [OF this, of new_id]
  show "eid \<notin> fst ` set (association_rows (snd (events_router new_id (DELETE_event eid) db)))"
    unfolding eq snd_conv by auto
next
  fix snapshot other assume "read_by_id db eid = Some snapshot" and ne: "other \<noteq> eid"
  note eq = delete_event_existing [OF this(1), of new_id]
  show "read_by_id (snd (events_router new_id (DELETE_event eid) db)) other =
         read_by_id db other"
    unfolding eq snd_conv by (rule read_by_id_after_delete [OF ne])
qed

theorem get_delete_not_found_witness:
  "11 \<notin> row_id ` set (event_rows example_store) \<and>
   events_router 0 (GET_event 11) example_store =
     (Inr \<lparr>status_code = 404, content = JDetail ''Person not found''\<rparr>, example_store) \<and>
   events_router 0 (DELETE_event 11) example_store =
     (Inr \<lparr>status_code = 404, content = JDetail ''Person not found''\<rparr>, example_store) \<and>
   read_by_id example_store 10 =
     Some \<lparr>event_id = 10, title = ''blah'', description = ''blah'',
           time = ''2024-01-01 10:00:00'', cancelled = False,
           persons = [\<lparr>person_id = 1, name = ''Person1''\<rparr>]\<rparr> \<and>
   fst (events_router 0 (DELETE_event 10) example_store) =
     Inr \<lparr>status_code = 200, content = JEvent
           \<lparr>event_id = 10, title = ''blah'', description = ''blah'',
            time = ''2024-01-01 10:00:00'', cancelled = False,
            persons = [\<lparr>person_id = 1, name = ''Person1''\<rparr>]\<rparr>\<rparr> \<and>
   read_by_id (snd (events_router 0 (DELETE_event 10) example_store)) 10 = None"
proof -
  have h1: "11 \<notin> row_id ` set (event_rows example_store)"
    by (simp add: example_store_def)
  have h2: "read_by_id example_store 10 =
     Some \<lparr>event_id = 10, title = ''blah'', description = ''blah'',
           time = ''2024-01-01 10:00:00'', cancelled = False,
           persons = [\<lparr>person_id = 1, name = ''Person1''\<rparr>]\<rparr>"
    by (simp add: read_by_id_def find_event_row_def example_store_def entity_def
        get_persons_from_event_def List.map_filter_simps person_read_by_id_def)
  show ?thesis
    using h1 h2 get_delete_not_found [of 11 example_store 0]
      get_delete_not_found [of 10 example_store 0]
    by blast
qed

section \<open>The update route\<close>

text \<open>
  Claim C8. Whatever the id, the payload and the store, \<^verbatim>\<open>PUT /events/{id}\<close> raises
  \<^verbatim>\<open>NotImplementedError\<close>: no response is produced and the store is what it was.
\<close>

theorem update_event_not_implemented:
  "events_router new_id (PUT_event eid event) db = (Inl NotImplementedError, db)"
  by (simp add: update_event_def)

section \<open>The not-found response\<close>

text \<open>
  Claim C9. Every response of the event routes that carries status 404 is the same
  response: status 404 with the detail ``Person not found'', whether it stems from a failed
  Event lookup, a failed Event deletion or a missing Person on creation.
\<close>

theorem not_found_uniform:
  assumes "fst (events_router new_id req db) = Inr r" and "status_code r = 404"
  shows "r = \<lparr>status_code = 404, content = JDetail ''Person not found''\<rparr>"
  using assms
  by (cases req)
     (auto simp: route_defs get_all_events_def create_event_without_persons_def
        create_event_with_persons_def get_event_def update_event_def add_persons_to_event_def
        delete_event_def flip_cancel_event_def
        split: prod.splits option.splits)

theorem not_found_uniform_witness:
  "fst (events_router 0 (DELETE_event 11) example_store) =
     Inr \<lparr>status_code = 404, content = JDetail ''Person not found''\<rparr> \<and>
   status_code \<lparr>status_code = 404, content = JDetail ''Person not found''\<rparr> = 404"
proof -
  have h1: "fst (events_router 0 (DELETE_event 11) example_store) =
      Inr \<lparr>status_code = 404, content = JDetail ''Person not found''\<rparr>"
    by (simp add: route_defs delete_event_def delete_by_id_def read_by_id_def
        find_event_row_def example_store_def)
  have h2: "status_code \<lparr>status_code = 404, content = JDetail ''Person not found''\<rparr> = 404"
    by simp
  show ?thesis using h1 h2 not_found_uniform [OF h1 h2] by simp
qed

section \<open>The cancel route\<close>

text \<open>
  Claim C3, as amended. For every event id, whether or not an Event carries it, the route
  \<^verbatim>\<open>PATCH /events/{id}/cancel\<close> answers 200 with an empty body; it never answers 404.
\<close>

theorem cancel_route_always_ok:
  "fst (events_router new_id (PATCH_cancel eid) db) =
     Inr \<lparr>status_code = 200, content = JNull\<rparr>"
  by (simp add: flip_cancel_event_def route_defs)

text \<open>
  Claim C3 as stated fails on the example store: id 11 identifies no Event and the route
  does not answer 404; id 10 identifies an Event that is not cancelled, and after the
  route has run the Event is not cancelled either.
\<close>

theorem cancel_route_counterexample:
  "read_by_id example_store 11 = None \<and>
   status_of (events_router 0 (PATCH_cancel 11) example_store) \<noteq> Some 404 \<and>
   map_option cancelled (read_by_id example_store 10) = Some False \<and>
   map_option cancelled
     (read_by_id (snd (events_router 0 (PATCH_cancel 10) example_store)) 10) \<noteq> Some True"
  by (simp add: read_by_id_def find_event_row_def example_store_def entity_def
      status_of_def flip_cancel_event_def route_defs)



section \<open>Creation without persons and the round trip\<close>

lemma find_append_new:
  "eid \<notin> row_id ` set rows \<Longrightarrow> row_id r = eid \<Longrightarrow>
     find (\<lambda>r. row_id r = eid) (rows @ [r]) = Some r"
  by (induction rows) auto

lemma map_filter_all_None:
  "\<forall>row \<in> set rows. f row = None \<Longrightarrow> List.map_filter f rows = []"
  by (induction rows) (auto simp: List.map_filter_simps)

lemma get_persons_from_event_unreferenced:
  assumes "eid \<notin> fst ` set (association_rows s)"
  shows "get_persons_from_event s eid = []"
  unfolding get_persons_from_event_def
  by (rule map_filter_all_None) (use assms in auto)

lemma fresh_id_unreferenced:
  assumes "referential_integrity s" and "eid \<notin> row_id ` set (event_rows s)"
  shows "eid \<notin> fst ` set (association_rows s)"
  using assms by (fastforce simp: referential_integrity_def)

lemma create_event_without_persons_fresh:
  assumes "event_id event \<notin> row_id ` set (event_rows db)" and "referential_integrity db"
  shows "events_router new_id (POST_create_no_persons event) db =
     (Inr \<lparr>status_code = 201, content = JEvent
        \<lparr>event_id = event_id event, title = title event, description = description event,
         time = time event, cancelled = False, persons = []\<rparr>\<rparr>,
      db\<lparr>event_rows := event_rows db @
          [\<lparr>row_id = event_id event, row_title = title event,
            row_description = description event, row_time = time event,
            row_cancelled = False\<rparr>]\<rparr>)"
proof -
  have "event_id event \<notin> fst ` set (association_rows db)"
    by (rule fresh_id_unreferenced [OF assms(2) assms(1)])
  then have "get_persons_from_event db (event_id event) = []"
    by (rule get_persons_from_event_unreferenced)
  then show ?thesis
    by (simp add: route_defs create_event_without_persons_def create_without_persons_def
        Let_def entity_def get_persons_from_event_event_rows)
qed

lemma get_event_after_create:
  assumes "eid \<notin> row_id ` set (event_rows db)" and "referential_integrity db"
  shows "events_router new_id (GET_event eid)
           (db\<lparr>event_rows := event_rows db @
              [\<lparr>row_id = eid, row_title = ttl, row_description = descr, row_time = tm,
                row_cancelled = False\<rparr>]\<rparr>) =
     (Inr \<lparr>status_code = 200, content = JEvent
        \<lparr>event_id = eid, title = ttl, description = descr, time = tm, cancelled = False,
         persons = []\<rparr>\<rparr>,
      db\<lparr>event_rows := event_rows db @
          [\<lparr>row_id = eid, row_title = ttl, row_description = descr, row_time = tm,
            row_cancelled = False\<rparr>]\<rparr>)"
proof -
  let ?r = "\<lparr>row_id = eid, row_title = ttl, row_description = descr, row_time = tm,
             row_cancelled = False\<rparr>"
  let ?db' = "db\<lparr>event_rows := event_rows db @ [?r]\<rparr>"
  have "eid \<notin> fst ` set (association_rows db)"
    by (rule fresh_id_unreferenced [OF assms(2) assms(1)])
  then have none: "get_persons_from_event db eid = []"
    by (rule get_persons_from_event_unreferenced)
  have "find_event_row ?db' eid = Some ?r"
    using assms(1) by (simp add: find_event_row_def find_append_new)
  then have "read_by_id ?db' eid =
      Some \<lparr>event_id = eid, title = ttl, description = descr, time = tm, cancelled = False,
            persons = []\<rparr>"
    using none by (simp add: read_by_id_def entity_def get_persons_from_event_event_rows)
  then show ?thesis
    by (simp add: route_defs get_event_def)
qed

text \<open>
  Claim C5. Let an Event be created through \<^verbatim>\<open>create_no_persons\<close> under an id that no
  stored Event carries yet, in a store whose association rows reference existing rows
  only. The creation is answered 201, and a following \<^verbatim>\<open>GET /events/{id}\<close> with the
  caller's id is answered 200 with an Event that has the caller's id, title, description
  and time and no persons. The id the store would generate plays no part.
\<close>

theorem create_read_round_trip:
  assumes "event_id event \<notin> row_id ` set (event_rows db)" and "referential_integrity db"
  shows "fst (events_router n1 (POST_create_no_persons event) db) =
           Inr \<lparr>status_code = 201, content = JEvent
             \<lparr>event_id = event_id event, title = title event,
              description = description event, time = time event, cancelled = False,
              persons = []\<rparr>\<rparr> \<and>
         fst (events_router n2 (GET_event (event_id event))
                (snd (events_router n1 (POST_create_no_persons event) db))) =
           Inr \<lparr>status_code = 200, content = JEvent
             \<lparr>event_id = event_id event, title = title event,
              description = description event, time = time event, cancelled = False,
              persons = []\<rparr>\<rparr>"
  unfolding create_event_without_persons_fresh [OF assms] snd_conv
    get_event_after_create [OF assms] fst_conv
  by simp

theorem create_read_round_trip_witness:
  "event_id example_event \<notin> row_id ` set (event_rows example_store) \<and>
   referential_integrity example_store \<and>
   fst (events_router 77 (GET_event 5)
          (snd (events_router 76 (POST_create_no_persons example_event) example_store))) =
     Inr \<lparr>status_code = 200, content = JEvent
       \<lparr>event_id = 5, title = ''standup'', description = ''daily'',
        time = ''2024-02-02 09:00:00'', cancelled = False, persons = []\<rparr>\<rparr>"
proof -
  have h1: "event_id example_event \<notin> row_id ` set (event_rows example_store)"
    by (simp add: example_event_def example_store_def)
  have h2: "referential_integrity example_store"
    by (simp add: referential_integrity_def example_store_def)
  show ?thesis
    using h1 h2 create_read_round_trip [OF h1 h2, of 76 77]
    by (simp add: example_event_def)
qed

section \<open>Adding persons to an event\<close>

lemma person_read_by_id_association_rows:
  "person_read_by_id (s\<lparr>association_rows := rows\<rparr>) pid = person_read_by_id s pid"
  by (simp add: person_read_by_id_def)

lemma find_event_row_association_rows:
  "find_event_row (s\<lparr>association_rows := rows\<rparr>) eid = find_event_row s eid"
  by (simp add: find_event_row_def)

lemma add_each_all_exist:
  "\<forall>pid \<in> set pids. person_read_by_id s pid \<noteq> None \<Longrightarrow>
     add_each s eid pids =
       Some (s\<lparr>association_rows := fold (add_association eid) pids (association_rows s)\<rparr>)"
proof (induction pids arbitrary: s)
  case Nil
  then show ?case by simp
next
  case (Cons pid pids)
  from Cons.prems obtain q where q: "person_read_by_id s pid = Some q" by auto
  let ?s = "s\<lparr>association_rows := add_association eid pid (association_rows s)\<rparr>"
  from Cons.prems have "\<forall>pid \<in> set pids. person_read_by_id ?s pid \<noteq> None"
    by (simp add: person_read_by_id_association_rows)
  then have "add_each ?s eid pids =
      Some (?s\<lparr>association_rows := fold (add_association eid) pids (association_rows ?s)\<rparr>)"
    by (rule Cons.IH)
  with q show ?case by simp
qed

lemma add_each_missing:
  "\<exists>pid \<in> set pids. person_read_by_id s pid = None \<Longrightarrow> add_each s eid pids = None"
proof (induction pids arbitrary: s)
  case Nil
  then show ?case by simp
next
  case (Cons pid pids)
  show ?case
  proof (cases "person_read_by_id s pid")
    case None
    then show ?thesis by simp
  next
    case (Some q)
    let ?s = "s\<lparr>association_rows := add_association eid pid (association_rows s)\<rparr>"
    from Cons.prems Some have "\<exists>pid \<in> set pids. person_read_by_id ?s pid = None"
      by (auto simp: person_read_by_id_association_rows)
    then have "add_each ?s eid pids = None" by (rule Cons.IH)
    with Some show ?thesis by simp
  qed
qed

lemma set_fold_add_association:
  "set (fold (add_association eid) pids rows) = set rows \<union> Pair eid ` set pids"
  by (induction pids arbitrary: rows) (auto simp: add_association_def)

lemma fold_add_association_present:
  "\<forall>pid \<in> set pids. (eid, pid) \<in> set rows \<Longrightarrow> fold (add_association eid) pids rows = rows"
  by (induction pids) (auto simp: add_association_def)

lemma fold_add_association_twice:
  "fold (add_association eid) pids (fold (add_association eid) pids rows) =
     fold (add_association eid) pids rows"
  by (rule fold_add_association_present) (simp add: set_fold_add_association)

lemma distinct_fold_add_association:
  "distinct rows \<Longrightarrow> distinct (fold (add_association eid) pids rows)"
  by (induction pids arbitrary: rows) (auto simp: add_association_def)

lemma add_persons_to_event_existing:
  assumes "eid \<in> row_id ` set (event_rows db)"
    and "\<forall>pid \<in> set pids. pid \<in> person_id ` set (person_rows db)"
  shows "events_router new_id (PUT_add_persons eid pids) db =
     (Inr \<lparr>status_code = 200, content = serialise
         (read_by_id
            (db\<lparr>association_rows := fold (add_association eid) pids (association_rows db)\<rparr>)
            eid)\<rparr>,
      db\<lparr>association_rows := fold (add_association eid) pids (association_rows db)\<rparr>)"
proof -
  from assms(1) obtain r where "find_event_row db eid = Some r"
    using find_event_row_None_iff [of db eid] by auto
  moreover from assms(2) have "\<forall>pid \<in> set pids. person_read_by_id db pid \<noteq> None"
    by (simp add: person_read_by_id_None_iff)
  then have "add_each db eid pids =
      Some (db\<lparr>association_rows := fold (add_association eid) pids (association_rows db)\<rparr>)"
    by (rule add_each_all_exist)
  ultimately show ?thesis
    by (simp add: route_defs add_persons_to_event_def add_people_to_event_def)
qed

lemma add_persons_to_event_failure:
  assumes "eid \<notin> row_id ` set (event_rows db) \<or>
           (\<exists>pid \<in> set pids. pid \<notin> person_id ` set (person_rows db))"
  shows "events_router new_id (PUT_add_persons eid pids) db =
     (Inr \<lparr>status_code = 200, content = JNull\<rparr>, db)"
proof (cases "find_event_row db eid")
  case None
  then show ?thesis
    by (simp add: route_defs add_persons_to_event_def add_people_to_event_def serialise_def)
next
  case (Some r)
  then have "eid \<in> row_id ` set (event_rows db)"
    using find_event_row_None_iff [of db eid] by auto
  with assms have "\<exists>pid \<in> set pids. person_read_by_id db pid = None"
    by (simp add: person_read_by_id_None_iff)
  then have "add_each db eid pids = None" by (rule add_each_missing)
  with Some show ?thesis
    by (simp add: route_defs add_persons_to_event_def add_people_to_event_def serialise_def)
qed

text \<open>
  Claim C2, evaluated where it fails. On the example store, id 11 identifies no Event and
  id 3 no Person. Adding person 1 to event 11, and adding persons 2 and 3 to the existing
  event 10, are both answered with status 200 and the body \<^verbatim>\<open>null\<close>, not with 404. The
  store is unchanged in both cases; in particular person 2 has not been attached.
\<close>

theorem add_persons_not_found_is_200:
  "read_by_id example_store 11 = None \<and>
   events_router 0 (PUT_add_persons 11 [1]) example_store =
     (Inr \<lparr>status_code = 200, content = JNull\<rparr>, example_store) \<and>
   person_read_by_id example_store 3 = None \<and>
   events_router 0 (PUT_add_persons 10 [2, 3]) example_store =
     (Inr \<lparr>status_code = 200, content = JNull\<rparr>, example_store)"
proof -
  have a: "read_by_id example_store 11 = None"
    by (simp add: read_by_id_def find_event_row_def example_store_def)
  have b: "person_read_by_id example_store 3 = None"
    by (simp add: person_read_by_id_def example_store_def)
  have c: "events_router 0 (PUT_add_persons 11 [1]) example_store =
     (Inr \<lparr>status_code = 200, content = JNull\<rparr>, example_store)"
    by (rule add_persons_to_event_failure) (simp add: example_store_def)
  have d: "events_router 0 (PUT_add_persons 10 [2, 3]) example_store =
     (Inr \<lparr>status_code = 200, content = JNull\<rparr>, example_store)"
    by (rule add_persons_to_event_failure) (simp add: example_store_def)
  from a b c d show ?thesis by simp
qed

text \<open>
  Claim C6. For an existing Event and person ids that all exist, a second
  \<^verbatim>\<open>add_persons_to_event\<close> request with the same ids is answered exactly as the first and
  leaves the store of the first; so is a single request in which every id occurs twice.
  All the ids are then associated with the Event, and an association table without
  duplicate rows has none afterwards. The case of the claim is the one-element list.
\<close>

theorem add_persons_idempotent:
  assumes "eid \<in> row_id ` set (event_rows db)"
    and "\<forall>pid \<in> set pids. pid \<in> person_id ` set (person_rows db)"
  shows "events_router n2 (PUT_add_persons eid pids)
           (snd (events_router n1 (PUT_add_persons eid pids) db)) =
         events_router n1 (PUT_add_persons eid pids) db \<and>
         events_router n1 (PUT_add_persons eid (pids @ pids)) db =
         events_router n1 (PUT_add_persons eid pids) db \<and>
         (\<forall>pid \<in> set pids.
            (eid, pid) \<in> set (association_rows
               (snd (events_router n1 (PUT_add_persons eid pids) db)))) \<and>
         (distinct (association_rows db) \<longrightarrow>
            distinct (association_rows
               (snd (events_router n1 (PUT_add_persons eid pids) db))))"
proof -
  let ?db1 = "db\<lparr>association_rows := fold (add_association eid) pids (association_rows db)\<rparr>"
  have once: "events_router n1 (PUT_add_persons eid pids) db =
      (Inr \<lparr>status_code = 200, content = serialise (read_by_id ?db1 eid)\<rparr>, ?db1)"
    by (rule add_persons_to_event_existing [OF assms])
  have ev1: "eid \<in> row_id ` set (event_rows ?db1)"
    using assms(1) by simp
  have ps1: "\<forall>pid \<in> set pids. pid \<in> person_id ` set (person_rows ?db1)"
    using assms(2) by simp
  have same: "?db1\<lparr>association_rows :=
      fold (add_association eid) pids (association_rows ?db1)\<rparr> = ?db1"
    by (simp add: fold_add_association_twice)
  have twice: "events_router n2 (PUT_add_persons eid pids) ?db1 =
      (Inr \<lparr>status_code = 200, content = serialise (read_by_id ?db1 eid)\<rparr>, ?db1)"
    unfolding add_persons_to_event_existing [OF ev1 ps1] same by (rule refl)
  have ps2: "\<forall>pid \<in> set (pids @ pids). pid \<in> person_id ` set (person_rows db)"
    using assms(2) by simp
  have doubled: "events_router n1 (PUT_add_persons eid (pids @ pids)) db =
      (Inr \<lparr>status_code = 200, content = serialise (read_by_id ?db1 eid)\<rparr>, ?db1)"
    unfolding add_persons_to_event_existing [OF assms(1) ps2]
    by (simp add: fold_add_association_twice)
  have attached: "\<forall>pid \<in> set pids. (eid, pid) \<in> set (association_rows ?db1)"
    by (simp add: set_fold_add_association)
  have nodup: "distinct (association_rows db) \<longrightarrow> distinct (association_rows ?db1)"
    by (simp add: distinct_fold_add_association)
  show ?thesis
    unfolding doubled once snd_conv twice
    using attached nodup by blast
qed

theorem add_persons_idempotent_witness:
  "10 \<in> row_id ` set (event_rows example_store) \<and>
   2 \<in> person_id ` set (person_rows example_store) \<and>
   events_router 0 (PUT_add_persons 10 [2])
     (snd (events_router 0 (PUT_add_persons 10 [2]) example_store)) =
   events_router 0 (PUT_add_persons 10 [2]) example_store \<and>
   association_rows (snd (events_router 0 (PUT_add_persons 10 [2]) example_store)) =
     [(10, 1), (10, 2)]"
proof -
  have h1: "10 \<in> row_id ` set (event_rows example_store)"
    by (simp add: example_store_def)
  have h2: "\<forall>pid \<in> set [2]. pid \<in> person_id ` set (person_rows example_store)"
    by (simp add: example_store_def)
  have rows: "association_rows (snd (events_router 0 (PUT_add_persons 10 [2]) example_store)) =
     [(10, 1), (10, 2)]"
    unfolding add_persons_to_event_existing [OF h1 h2] snd_conv
    by (simp add: example_store_def add_association_def)
  have h3: "2 \<in> person_id ` set (person_rows example_store)"
    by (simp add: example_store_def)
  show ?thesis
    using h1 h3 rows add_persons_idempotent [OF h1 h2, of 0 0] by blast
qed

section \<open>The reply of creation with persons\<close>

lemma create_with_persons_resolved:
  assumes "resolve_persons db ps = Some qs"
  shows "events_router new_id (POST_create_with_persons event ps) db =
     (Inr \<lparr>status_code = 201, content = JEvent
        \<lparr>event_id = event_id event, title = title event, description = description event,
         time = time event, cancelled = False, persons = ps\<rparr>\<rparr>,
      db\<lparr>event_rows := event_rows db @
            [\<lparr>row_id = new_id, row_title = title event, row_description = description event,
              row_time = time event, row_cancelled = False\<rparr>],
         association_rows :=
            fold (add_association new_id) (map person_id qs) (association_rows db)\<rparr>)"
  using assms
  by (simp add: route_defs create_event_with_persons_def create_with_persons_def Let_def)

text \<open>
  Claim C10. When every Person of the request resolves, \<^verbatim>\<open>create_with_persons\<close> is
  answered 201 with an Event made of the request's own id, title, description and time and
  of the persons list exactly as sent. The Event row that is stored carries the id the
  store assigned, and the store that results is the same whatever id the request carried:
  the id of the request is not handed on.
\<close>

theorem create_with_persons_reply_from_payload:
  assumes "\<forall>p \<in> set ps. person_id p \<in> person_id ` set (person_rows db)"
  shows "fst (events_router new_id (POST_create_with_persons event ps) db) =
           Inr \<lparr>status_code = 201, content = JEvent
             \<lparr>event_id = event_id event, title = title event,
              description = description event, time = time event, cancelled = False,
              persons = ps\<rparr>\<rparr> \<and>
         event_rows (snd (events_router new_id (POST_create_with_persons event ps) db)) =
           event_rows db @
             [\<lparr>row_id = new_id, row_title = title event, row_description = description event,
               row_time = time event, row_cancelled = False\<rparr>] \<and>
         snd (events_router new_id
                (POST_create_with_persons (event\<lparr>event_id := other\<rparr>) ps) db) =
         snd (events_router new_id (POST_create_with_persons event ps) db)"
proof -
  from assms have "resolve_persons db ps \<noteq> None"
    by (simp add: resolve_persons_None_iff person_read_by_id_None_iff)
  then obtain qs where qs: "resolve_persons db ps = Some qs" by auto
  show ?thesis
    unfolding create_with_persons_resolved [OF qs] by simp
qed

theorem create_with_persons_reply_from_payload_witness:
  "person_id \<lparr>person_id = 2, name = ''Somebody''\<rparr> \<in>
      person_id ` set (person_rows example_store) \<and>
   fst (events_router 77 (POST_create_with_persons example_event
          [\<lparr>person_id = 2, name = ''Somebody''\<rparr>]) example_store) =
     Inr \<lparr>status_code = 201, content = JEvent
       \<lparr>event_id = 5, title = ''standup'', description = ''daily'',
        time = ''2024-02-02 09:00:00'', cancelled = False,
        persons = [\<lparr>person_id = 2, name = ''Somebody''\<rparr>]\<rparr>\<rparr> \<and>
   map row_id (event_rows (snd (events_router 77 (POST_create_with_persons example_event
          [\<lparr>person_id = 2, name = ''Somebody''\<rparr>]) example_store))) = [10, 77] \<and>
   read_by_id (snd (events_router 77 (POST_create_with_persons example_event
          [\<lparr>person_id = 2, name = ''Somebody''\<rparr>]) example_store)) 5 = None"
proof -
  have h: "\<forall>p \<in> set [\<lparr>person_id = 2, name = ''Somebody''\<rparr>].
      person_id p \<in> person_id ` set (person_rows example_store)"
    by (simp add: example_store_def)
  note inst = create_with_persons_reply_from_payload [OF h, of 77 example_event 0]
  from inst have rows: "event_rows (snd (events_router 77 (POST_create_with_persons example_event
          [\<lparr>person_id = 2, name = ''Somebody''\<rparr>]) example_store)) =
       event_rows example_store @
         [\<lparr>row_id = 77, row_title = title example_event,
           row_description = description example_event,
           row_time = time example_event, row_cancelled = False\<rparr>]"
    by blast
  have ids: "map row_id (event_rows (snd (events_router 77
       (POST_create_with_persons example_event
          [\<lparr>person_id = 2, name = ''Somebody''\<rparr>]) example_store))) = [10, 77]"
    unfolding rows by (simp add: example_store_def)
  have gone: "read_by_id (snd (events_router 77 (POST_create_with_persons example_event
          [\<lparr>person_id = 2, name = ''Somebody''\<rparr>]) example_store)) 5 = None"
    unfolding read_by_id_None_iff rows by (simp add: example_store_def)
  from inst have reply: "fst (events_router 77 (POST_create_with_persons example_event
          [\<lparr>person_id = 2, name = ''Somebody''\<rparr>]) example_store) =
     Inr \<lparr>status_code = 201, content = JEvent
       \<lparr>event_id = 5, title = ''standup'', description = ''daily'',
        time = ''2024-02-02 09:00:00'', cancelled = False,
        persons = [\<lparr>person_id = 2, name = ''Somebody''\<rparr>]\<rparr>\<rparr>"
    by (simp add: example_event_def)
  have h': "person_id \<lparr>person_id = 2, name = ''Somebody''\<rparr> \<in>
      person_id ` set (person_rows example_store)"
    by (simp add: example_store_def)
  from h' reply ids gone show ?thesis by blast
qed

end
